theory Spec2Isabelle
  imports Main "HOL-Library.Char_ord" "HOL-Library.List_Lexorder"
begin

section \<open>JavaScript strings and arrays\<close>

text \<open>
  Strings are lists of characters read as ASCII text. The white space of
  \<^verbatim>\<open>String.prototype.trim\<close>, of \<^verbatim>\<open>parseInt\<close> and of the regular expression classes
  \<^verbatim>\<open>\s\<close> and \<^verbatim>\<open>\S\<close> is the same set: tab, line feed, vertical tab, form feed,
  carriage return and space. The line terminators, which \<^verbatim>\<open>.\<close> does not match in a
  regular expression, are line feed and carriage return.
\<close>

definition isLineTerminator :: "char \<Rightarrow> bool" where
  "isLineTerminator c = (c = CHR 0x0A \<or> c = CHR 0x0D)"

definition isWhiteSpace :: "char \<Rightarrow> bool" where
  "isWhiteSpace c =
     (c = CHR 0x09 \<or> c = CHR 0x0B \<or> c = CHR 0x0C \<or> c = CHR 0x20 \<or> isLineTerminator c)"

text \<open>\<^verbatim>\<open>s.trim()\<close>\<close>

definition trim :: "string \<Rightarrow> string" where
  "trim s = rev (dropWhile isWhiteSpace (rev (dropWhile isWhiteSpace s)))"

text \<open>
  \<^verbatim>\<open>s.split(c)\<close> for a separator of one character: the text before the first
  separator, then the pieces of the text after it; a string without the separator is the
  only piece of itself.
\<close>

function split :: "char \<Rightarrow> string \<Rightarrow> string list" where
  "split c s =
     (case dropWhile (\<lambda>x. x \<noteq> c) s of
        [] \<Rightarrow> [s]
      | _ # rest \<Rightarrow> takeWhile (\<lambda>x. x \<noteq> c) s # split c rest)"
  by pat_completeness auto
termination
proof (relation "measure (\<lambda>(c, s). length s)")
  show "wf (measure (\<lambda>(c, s). length s))"
    by simp
next
  fix c :: char and s :: string and x rest
  assume "dropWhile (\<lambda>x. x \<noteq> c) s = x # rest"
  then have "length rest < length (dropWhile (\<lambda>x. x \<noteq> c) s)"
    by simp
  also have "\<dots> \<le> length s"
    by (rule length_dropWhile_le)
  finally show "((c, rest), (c, s)) \<in> measure (\<lambda>(c, s). length s)"
    by simp
qed

declare split.simps [simp del]

text \<open>\<^verbatim>\<open>parts.join(sep)\<close>\<close>

fun join :: "string \<Rightarrow> string list \<Rightarrow> string" where
  "join sep [] = []"
| "join sep [x] = x"
| "join sep (x # y # ys) = x @ sep @ join sep (y # ys)"

text \<open>
  \<^verbatim>\<open>c.toUpperCase()\<close> on one ASCII character: the code of a lower-case letter less 32,
  which is the same character with the bit of weight 32 cleared.
\<close>

definition toUpperCase :: "char \<Rightarrow> char" where
  "toUpperCase c =
     (if CHR ''a'' \<le> c \<and> c \<le> CHR ''z''
      then (case c of Char b0 b1 b2 b3 b4 b5 b6 b7 \<Rightarrow> Char b0 b1 b2 b3 b4 False b6 b7)
      else c)"

text \<open>\<^verbatim>\<open>word.charAt(0).toUpperCase() + word.slice(1)\<close>\<close>

fun capitalize :: "string \<Rightarrow> string" where
  "capitalize [] = []"
| "capitalize (c # cs) = toUpperCase c # cs"

text \<open>
  The decimal text of an integer, as a template literal prints a number (for the
  integers below \<^verbatim>\<open>1e21\<close> in absolute value, which print without an exponent).
\<close>

fun digits :: "nat \<Rightarrow> string" where
  "digits n =
     (if n < 10 then [''0123456789'' ! n]
      else digits (n div 10) @ [''0123456789'' ! (n mod 10)])"

declare digits.simps [simp del]

definition numberToString :: "int \<Rightarrow> string" where
  "numberToString n = (if n < 0 then CHR ''-'' # digits (nat (- n)) else digits (nat n))"

text \<open>
  \<^verbatim>\<open>array.slice(start, end)\<close>: a negative index counts from the end of the array, both
  indices are clamped to the array, and a missing \<^verbatim>\<open>end\<close> (\<open>None\<close>) is the length.
\<close>

definition slice :: "'a list \<Rightarrow> int \<Rightarrow> int option \<Rightarrow> 'a list" where
  "slice xs start fin =
     (let len = int (length xs);
          k = (if start < 0 then max (len + start) 0 else min start len);
          e = (case fin of None \<Rightarrow> len
               | Some r \<Rightarrow> if r < 0 then max (len + r) 0 else min r len)
      in take (nat (e - k)) (drop (nat k) xs))"

section \<open>lib/utils.ts\<close>

subsection \<open>transformToMetafields\<close>

text \<open>
  A row is the object the CSV parser builds for one line; it is represented by the
  sequence of its entries in the order \<^verbatim>\<open>Object.entries(row)\<close> yields them, and
  \<^verbatim>\<open>row.sku\<close> is the lookup of a column (\<open>None\<close> for \<^verbatim>\<open>undefined\<close>).
\<close>

type_synonym row = "(string \<times> string) list"

record metafield =
  resource_type :: string
  resource_id :: int
  namespace :: string
  key :: string
  val :: string
  description :: string
  permission_set :: string

definition skipColumns :: "string list" where
  "skipColumns = [''id'', ''sku'']"

text \<open>\<^verbatim>\<open>type.string.narrow((s) => !skipColumns.includes(s))\<close>\<close>

definition header_allows :: "string \<Rightarrow> bool" where
  "header_allows s = (s \<notin> set skipColumns)"

text \<open>
  The keyword \<^verbatim>\<open>string.trim.preformatted\<close> of the arktype library is the set of strings
  that match the regular expression \<^verbatim>\<open>/^\S.*\S$|^\S?$/\<close> (a string that is trimmed
  already; nothing is trimmed by it). The second alternative matches the empty string and
  a single character that is no white space; the first one matches two characters or
  more, the first and the last no white space, with no line terminator between them.
\<close>

fun preformatted :: "string \<Rightarrow> bool" where
  "preformatted [] = True"
| "preformatted [c] = (\<not> isWhiteSpace c)"
| "preformatted (c # cs) =
     (\<not> isWhiteSpace c \<and> list_all (\<lambda>x. \<not> isLineTerminator x) (butlast cs)
      \<and> \<not> isWhiteSpace (last cs))"

text \<open>\<^verbatim>\<open>type("string.trim.preformatted").moreThanLength(0)\<close>\<close>

definition value_allows :: "string \<Rightarrow> bool" where
  "value_allows v = (preformatted v \<and> 0 < length v)"

text \<open>\<^verbatim>\<open>columnSchema.allows\<close>, for the tuple type \<^verbatim>\<open>[header, value]\<close>\<close>

definition columnSchema_allows :: "string \<times> string \<Rightarrow> bool" where
  "columnSchema_allows e = (header_allows (fst e) \<and> value_allows (snd e))"

text \<open>The function the entries that pass the filter are mapped with.\<close>

definition toMetafield :: "string \<Rightarrow> int \<Rightarrow> string \<times> string \<Rightarrow> metafield" where
  "toMetafield sku productId e =
     (let parts = split CHR ''.'' (fst e);
          nspace = hd parts;
          rest = tl parts;
          metafieldKey = join ''.'' rest;
          formattedKey = join '' '' (map capitalize (split CHR ''_'' metafieldKey))
      in \<lparr> resource_type = ''product'',
           resource_id = productId,
           namespace = nspace,
           key = metafieldKey,
           val = snd e,
           description = formattedKey @ '' for '' @ sku,
           permission_set = ''write_and_sf_access'' \<rparr>)"

definition transformToMetafields :: "row \<Rightarrow> int \<Rightarrow> metafield list" where
  "transformToMetafields row productId =
     (let sku = (case map_of row ''sku'' of
                   None \<Rightarrow> ''product_'' @ numberToString productId
                 | Some s \<Rightarrow> if s \<noteq> [] then s else ''product_'' @ numberToString productId)
      in map (toMetafield sku productId) (filter columnSchema_allows row))"

subsection \<open>chunk\<close>

text \<open>
  The loop of \<^verbatim>\<open>chunk\<close>, with the counter \<open>i\<close> and the array \<open>chunks\<close> built so far.
  Nothing in the source bounds the number of iterations, so the loop is a partial
  function: \<open>None\<close> is a run that never leaves the loop (on a machine it goes on until
  the memory for \<open>chunks\<close> is used up). The function has no \<^verbatim>\<open>throw\<close>.
\<close>

partial_function (option) chunk_loop ::
  "'a list \<Rightarrow> int \<Rightarrow> int \<Rightarrow> 'a list list \<Rightarrow> 'a list list option" where
  "chunk_loop array sz i chunks =
     (if i < int (length array)
      then chunk_loop array sz (i + sz) (chunks @ [slice array i (Some (i + sz))])
      else Some chunks)"

declare chunk_loop.simps [code]

definition chunk :: "'a list \<Rightarrow> int \<Rightarrow> 'a list list option" where
  "chunk array sz = chunk_loop array sz 0 []"


section \<open>lib/types.ts and the outside world\<close>

text \<open>
  The options as \<^verbatim>\<open>program.opts()\<close> delivers them. For the numeric options \<open>None\<close>
  stands for \<^verbatim>\<open>undefined\<close> and for \<^verbatim>\<open>NaN\<close> (which \<^verbatim>\<open>parseInt\<close> gives for text that is
  no number): the code only ever tests these options for truthiness, where both count as
  false, as 0 does. The lists of \<^verbatim>\<open>DeleteOptions\<close> are arrays, which are truthy even when
  empty.
\<close>

record ProgramOptions =
  accessToken :: "string option"
  storeHash :: "string option"
  dryRun :: "bool option"
  skip :: "int option"
  limit :: "int option"
  batchSize :: "int option"

record DeleteOptions = ProgramOptions +
  opt_key :: "string list option"
  opt_namespace :: "string list option"
  opt_productId :: "int list option"
  opt_all :: "bool option"

text \<open>Truthiness of an optional string, of an optional flag and of an optional number.\<close>

definition truthy_string :: "string option \<Rightarrow> bool" where
  "truthy_string v = (case v of None \<Rightarrow> False | Some s \<Rightarrow> s \<noteq> [])"

definition truthy_flag :: "bool option \<Rightarrow> bool" where
  "truthy_flag v = (case v of None \<Rightarrow> False | Some b \<Rightarrow> b)"

definition truthy_number :: "int option \<Rightarrow> bool" where
  "truthy_number v = (case v of None \<Rightarrow> False | Some n \<Rightarrow> n \<noteq> 0)"

text \<open>\<^verbatim>\<open>v || d\<close> for an optional number \<open>v\<close>\<close>

definition or_default :: "int option \<Rightarrow> int \<Rightarrow> int" where
  "or_default v d = (case v of None \<Rightarrow> d | Some n \<Rightarrow> if n \<noteq> 0 then n else d)"

text \<open>\<^verbatim>\<open>if (options.dryRun === undefined) { options.dryRun = true; }\<close>\<close>

definition default_dryRun :: "'a ProgramOptions_scheme \<Rightarrow> 'a ProgramOptions_scheme" where
  "default_dryRun options =
     (if dryRun options = None then options\<lparr>dryRun := Some True\<rparr> else options)"

text \<open>\<^verbatim>\<open>!options.dryRun && (!options.accessToken || !options.storeHash)\<close>\<close>

definition credentials_missing :: "'a ProgramOptions_scheme \<Rightarrow> bool" where
  "credentials_missing options =
     (\<not> truthy_flag (dryRun options)
      \<and> (\<not> truthy_string (accessToken options) \<or> \<not> truthy_string (storeHash options)))"

text \<open>
  The query of the listing call, and a record as the remote system returns it: an object
  whose fields are numbers (integers here), strings or something else.
\<close>

record query =
  key_in :: "string list option"
  namespace_in :: "string list option"
  resource_id_in :: "int list option"
  include_fields :: "string list"
  query_limit :: int

datatype jsvalue = JNumber int | JString string | JOther

type_synonym item = "(string \<times> jsvalue) list"

text \<open>The calls of the management API; the last two change the remote catalog.\<close>

datatype api_call =
    GetStore
  | ListMetafields query
  | PostMetafields "metafield list"
  | DeleteMetafields "int list"

fun mutating :: "api_call \<Rightarrow> bool" where
  "mutating GetStore = False"
| "mutating (ListMetafields q) = False"
| "mutating (PostMetafields body) = True"
| "mutating (DeleteMetafields body) = True"

text \<open>
  What a run depends on and cannot control: the directory listing and the parsed content
  of each file (\<open>None\<close> when reading or parsing throws), for every call whether it throws
  when it is the \<open>n\<close>-th call of the run, and for a listing the records its iterator yields
  together with whether the iterator ends normally after them (\<open>False\<close>: it throws).
\<close>

record world =
  readdir :: "string list option"
  parseCSVFile :: "string \<Rightarrow> row list option"
  throws :: "nat \<Rightarrow> api_call \<Rightarrow> bool"
  listing :: "query \<Rightarrow> item list \<times> bool"

text \<open>
  What a run leaves behind: the calls it issued, in order, and of the console output the
  lines that report a configuration error, an outcome of a batch or of a row, or a fetch.
\<close>

datatype message =
    CredentialsRequired
  | CriteriaRequired
  | CannotProceed
  | Created nat int
  | ErrorForProduct int
  | WouldCreate nat int
  | NoMetafieldsFound
  | ErrorFetching
  | Deleted nat
  | ErrorDeletingBatch

record state =
  calls :: "api_call list"
  console :: "message list"

definition issue :: "api_call \<Rightarrow> state \<Rightarrow> state" where
  "issue c s = s\<lparr>calls := calls s @ [c]\<rparr>"

definition print :: "message \<Rightarrow> state \<Rightarrow> state" where
  "print m s = s\<lparr>console := console s @ [m]\<rparr>"

definition initial :: state where
  "initial = \<lparr>calls = [], console = []\<rparr>"

text \<open>A statement sequence either completes with a value or throws.\<close>

datatype 'a completion = Return 'a | Throw

text \<open>
  \<^verbatim>\<open>getStoreInfo\<close> issues one reading call and catches its failure; its result is only
  printed.
\<close>

definition getStoreInfo :: "state \<Rightarrow> state" where
  "getStoreInfo s = issue GetStore s"

section \<open>actions/create-metafields.ts\<close>

subsection \<open>parseInt\<close>

text \<open>
  \<^verbatim>\<open>parseInt(text)\<close> without a radix: leading white space is dropped, then a sign, then
  \<^verbatim>\<open>0x\<close> or \<^verbatim>\<open>0X\<close> (which makes the radix 16), and the longest run of digits of the radix is
  read; what follows it is ignored. \<open>None\<close> is \<^verbatim>\<open>NaN\<close>, the result when there is no digit.
  The result is an integer here; JavaScript rounds it to a double, which is zero or
  \<^verbatim>\<open>NaN\<close> exactly when the integer is.
\<close>

definition digitValue :: "char \<Rightarrow> nat option" where
  "digitValue c =
     (if CHR ''0'' \<le> c \<and> c \<le> CHR ''9'' then Some (of_char c - 48)
      else if CHR ''a'' \<le> c \<and> c \<le> CHR ''z'' then Some (of_char c - 87)
      else if CHR ''A'' \<le> c \<and> c \<le> CHR ''Z'' then Some (of_char c - 55)
      else None)"

definition isDigit :: "nat \<Rightarrow> char \<Rightarrow> bool" where
  "isDigit radix c = (case digitValue c of None \<Rightarrow> False | Some d \<Rightarrow> d < radix)"

definition mathInt :: "nat \<Rightarrow> string \<Rightarrow> nat" where
  "mathInt radix ds =
     foldl (\<lambda>n c. case digitValue c of None \<Rightarrow> n | Some d \<Rightarrow> n * radix + d) 0 ds"

definition parseInt :: "string \<Rightarrow> int option" where
  "parseInt input =
     (let s = dropWhile isWhiteSpace input;
          sign = (if take 1 s = ''-'' then - 1 else 1);
          s1 = (if take 1 s = ''-'' \<or> take 1 s = ''+'' then drop 1 s else s);
          hex = (take 2 s1 = ''0x'' \<or> take 2 s1 = ''0X'');
          radix = (if hex then 16 else 10);
          s2 = (if hex then drop 2 s1 else s1);
          ds = takeWhile (isDigit radix) s2
      in if ds = [] then None else Some (sign * int (mathInt radix ds)))"

text \<open>
  \<^verbatim>\<open>parseInt(row.id)\<close>: a row without the column has \<^verbatim>\<open>undefined\<close> there, which is parsed
  as the text \<^verbatim>\<open>undefined\<close>.
\<close>

definition parseInt_id :: "row \<Rightarrow> int option" where
  "parseInt_id row =
     (case map_of row ''id'' of None \<Rightarrow> parseInt ''undefined'' | Some text \<Rightarrow> parseInt text)"

subsection \<open>The files of a run\<close>

text \<open>\<^verbatim>\<open>file.endsWith(suffix)\<close>\<close>

definition endsWith :: "string \<Rightarrow> string \<Rightarrow> bool" where
  "endsWith suffix file =
     (length suffix \<le> length file \<and> drop (length file - length suffix) file = suffix)"

text \<open>
  The statements \<^verbatim>\<open>readCSVFiles\<close> and \<^verbatim>\<open>processAllFiles\<close> both start with: the names that
  end in \<^verbatim>\<open>.csv\<close>, sorted (\<^verbatim>\<open>sort()\<close> without a comparator orders strings by their
  character codes), then sliced.
\<close>

definition selectFiles :: "'a ProgramOptions_scheme \<Rightarrow> string list \<Rightarrow> string list" where
  "selectFiles options files =
     (let csvFiles = sort (filter (endsWith ''.csv'') files);
          skipCount = or_default (skip options) 0
      in slice csvFiles skipCount
           (if truthy_number (limit options)
            then Some (skipCount + or_default (limit options) 0) else None))"

text \<open>
  \<^verbatim>\<open>readCSVFiles\<close>: the selected files and the first row of the first of them; it throws
  when the directory or that file cannot be read.
\<close>

definition readCSVFiles ::
  "world \<Rightarrow> 'a ProgramOptions_scheme \<Rightarrow> (string list \<times> row option) completion" where
  "readCSVFiles w options =
     (case readdir w of
        None \<Rightarrow> Throw
      | Some files \<Rightarrow>
          (case selectFiles options files of
             [] \<Rightarrow> Return ([], None)
           | firstFile # others \<Rightarrow>
               (case parseCSVFile w firstFile of
                  None \<Rightarrow> Throw
                | Some [] \<Rightarrow> Return (firstFile # others, None)
                | Some (firstItem # rows) \<Rightarrow> Return (firstFile # others, Some firstItem))))"

subsection \<open>processAllFiles\<close>

record counters =
  totalProducts :: nat
  totalMetafields :: nat
  successCount :: nat
  errorCount :: nat

definition zero :: counters where
  "zero = \<lparr>totalProducts = 0, totalMetafields = 0, successCount = 0, errorCount = 0\<rparr>"

text \<open>
  The loop over the batches of one row, inside its \<^verbatim>\<open>try\<close>, from the counter \<open>i\<close> on:
  \<open>Throw\<close> when a call throws, which leaves the loop. Nothing bounds the number of
  iterations when the batch size is negative, so the loop is a partial function.
\<close>

partial_function (option) post_batches ::
  "world \<Rightarrow> metafield list \<Rightarrow> int \<Rightarrow> int \<Rightarrow> int \<Rightarrow> counters \<times> state
     \<Rightarrow> (unit completion \<times> counters \<times> state) option" where
  "post_batches w metafields sz productId i cs =
     (if i < int (length metafields)
      then (if throws w (length (calls (snd cs)))
                 (PostMetafields (slice metafields i (Some (i + sz))))
            then Some (Throw, fst cs,
                   issue (PostMetafields (slice metafields i (Some (i + sz)))) (snd cs))
            else post_batches w metafields sz productId (i + sz)
                   ((fst cs)\<lparr>successCount := successCount (fst cs)
                        + length (slice metafields i (Some (i + sz)))\<rparr>,
                    print (Created (length (slice metafields i (Some (i + sz)))) productId)
                      (issue (PostMetafields (slice metafields i (Some (i + sz))))
                         (snd cs))))
      else Some (Return (), cs))"

declare post_batches.simps [code]

text \<open>The body of the loop over the rows of a file; \<open>client\<close> says whether there is one.\<close>

definition process_row ::
  "world \<Rightarrow> 'a ProgramOptions_scheme \<Rightarrow> bool \<Rightarrow> row \<Rightarrow> counters \<times> state
     \<Rightarrow> (counters \<times> state) option" where
  "process_row w options client row cs =
     (case parseInt_id row of
        None \<Rightarrow> Some cs
      | Some productId \<Rightarrow>
          if productId = 0 then Some cs
          else
            (let metafields = transformToMetafields row productId;
                 counted = (fst cs)\<lparr>totalProducts := totalProducts (fst cs) + 1,
                              totalMetafields := totalMetafields (fst cs) + length metafields\<rparr>
             in if \<not> truthy_flag (dryRun options) \<and> client \<and> 0 < length metafields
                then (case post_batches w metafields (or_default (batchSize options) 50)
                             productId 0 (counted, snd cs) of
                        None \<Rightarrow> None
                      | Some (Return u, done) \<Rightarrow> Some done
                      | Some (Throw, c, s) \<Rightarrow>
                          Some (c\<lparr>errorCount := errorCount c + 1\<rparr>,
                                print (ErrorForProduct productId) s))
                else if truthy_flag (dryRun options)
                then Some (counted, print (WouldCreate (length metafields) productId) (snd cs))
                else Some (counted, snd cs)))"

fun process_rows ::
  "world \<Rightarrow> 'a ProgramOptions_scheme \<Rightarrow> bool \<Rightarrow> row list \<Rightarrow> counters \<times> state
     \<Rightarrow> (counters \<times> state) option" where
  "process_rows w options client [] cs = Some cs"
| "process_rows w options client (row # data) cs =
     (case process_row w options client row cs of
        None \<Rightarrow> None
      | Some cs' \<Rightarrow> process_rows w options client data cs')"

text \<open>The loop over the files: reading a file may throw, which nothing here catches.\<close>

fun process_files ::
  "world \<Rightarrow> 'a ProgramOptions_scheme \<Rightarrow> bool \<Rightarrow> string list \<Rightarrow> counters \<times> state
     \<Rightarrow> (unit completion \<times> counters \<times> state) option" where
  "process_files w options client [] cs = Some (Return (), cs)"
| "process_files w options client (file # csvFiles) cs =
     (case parseCSVFile w file of
        None \<Rightarrow> Some (Throw, cs)
      | Some data \<Rightarrow>
          (case process_rows w options client data cs of
             None \<Rightarrow> None
           | Some cs' \<Rightarrow> process_files w options client csvFiles cs'))"

definition processAllFiles ::
  "world \<Rightarrow> 'a ProgramOptions_scheme \<Rightarrow> bool \<Rightarrow> state
     \<Rightarrow> (unit completion \<times> counters \<times> state) option" where
  "processAllFiles w options client s =
     (case readdir w of
        None \<Rightarrow> Some (Throw, zero, s)
      | Some files \<Rightarrow> process_files w options client (selectFiles options files) (zero, s))"

subsection \<open>The run of the create command\<close>

text \<open>
  The top level of the file and \<^verbatim>\<open>main\<close>: the exit status, the counters and what the run
  left behind; \<open>None\<close> is a run that never ends. An error that reaches the \<^verbatim>\<open>catch\<close> of
  \<^verbatim>\<open>main\<close> ends the run with status 1. The preview that a dry run prints at the end
  computes and prints only.
\<close>

definition create_main ::
  "world \<Rightarrow> ProgramOptions \<Rightarrow> (nat \<times> counters \<times> state) option" where
  "create_main w given =
     (let options = default_dryRun given
      in if credentials_missing options
         then Some (1, zero, print CredentialsRequired initial)
         else
           (let client = (truthy_string (accessToken options)
                          \<and> truthy_string (storeHash options));
                s = (if client then getStoreInfo initial else initial)
            in case readCSVFiles w options of
                 Throw \<Rightarrow> Some (1, zero, s)
               | Return sampleData \<Rightarrow>
                   (case processAllFiles w options client s of
                      None \<Rightarrow> None
                    | Some (Throw, c, s') \<Rightarrow> Some (1, c, s')
                    | Some (Return u, c, s') \<Rightarrow> Some (0, c, s'))))"

section \<open>actions/delete-metafields.ts\<close>

text \<open>
  \<^verbatim>\<open>productMetafieldSchema\<close>: an object with numbers at \<^verbatim>\<open>id\<close> and \<^verbatim>\<open>resource_id\<close> and
  strings at \<^verbatim>\<open>key\<close>, \<^verbatim>\<open>namespace\<close> and \<^verbatim>\<open>value\<close>; other fields are ignored.
  \<open>validate\<close> reads these five fields of a record that the schema allows.
\<close>

record ProductMetafield =
  pm_id :: int
  pm_resource_id :: int
  pm_key :: string
  pm_namespace :: string
  pm_value :: string

definition validate :: "item \<Rightarrow> ProductMetafield option" where
  "validate it =
     (case (map_of it ''id'', map_of it ''resource_id'', map_of it ''key'',
            map_of it ''namespace'', map_of it ''value'') of
        (Some (JNumber i), Some (JNumber r), Some (JString k), Some (JString n),
         Some (JString v)) \<Rightarrow>
          Some \<lparr>pm_id = i, pm_resource_id = r, pm_key = k, pm_namespace = n, pm_value = v\<rparr>
      | _ \<Rightarrow> None)"

text \<open>\<^verbatim>\<open>items.filter(productMetafieldSchema.allows)\<close>\<close>

definition allowed :: "item list \<Rightarrow> ProductMetafield list" where
  "allowed items = List.map_filter validate items"

text \<open>
  The loop of \<^verbatim>\<open>fetchMetafields\<close> over what the iterator yields: the records pushed, and
  whether the loop was left by its \<^verbatim>\<open>break\<close>, which is taken once the number of records
  has reached \<^verbatim>\<open>options.limit || Infinity\<close>.
\<close>

fun fetch_loop :: "int option \<Rightarrow> item list \<Rightarrow> item list \<Rightarrow> item list \<times> bool" where
  "fetch_loop lim [] items = (items, False)"
| "fetch_loop lim (it # yielded) items =
     (if truthy_number lim \<and> or_default lim 0 \<le> int (length (items @ [it]))
      then (items @ [it], True)
      else fetch_loop lim yielded (items @ [it]))"

text \<open>What \<^verbatim>\<open>fetchMetafields\<close> and the top level do: go on with a value, or exit.\<close>

datatype 'a step = Value 'a | Exit nat

definition make_query :: "DeleteOptions \<Rightarrow> query" where
  "make_query options =
     \<lparr> key_in = opt_key options,
       namespace_in = opt_namespace options,
       resource_id_in = opt_productId options,
       include_fields = [''id'', ''key'', ''namespace'', ''resource_id'', ''value''],
       query_limit = 250 \<rparr>"

definition fetchMetafields ::
  "world \<Rightarrow> DeleteOptions \<Rightarrow> state \<Rightarrow> ProductMetafield list step \<times> state" where
  "fetchMetafields w options s =
     (let q = make_query options;
          s1 = issue (ListMetafields q) s;
          fetched = fetch_loop (limit options) (fst (listing w q)) []
      in if throws w (length (calls s)) (ListMetafields q)
            \<or> (\<not> snd fetched \<and> \<not> snd (listing w q))
         then (Exit 1, print ErrorFetching s1)
         else if fst fetched = [] then (Exit 0, print NoMetafieldsFound s1)
         else (Value (allowed (fst fetched)), s1))"

text \<open>
  The loop of \<^verbatim>\<open>deleteMetafields\<close> over the batches, with the counts of records deleted
  and failed so far.
\<close>

fun delete_batches ::
  "world \<Rightarrow> ProductMetafield list list \<Rightarrow> nat \<times> nat \<times> state \<Rightarrow> nat \<times> nat \<times> state" where
  "delete_batches w [] r = r"
| "delete_batches w (batch # batches) (success, failed, s) =
     (if throws w (length (calls s)) (DeleteMetafields (map pm_id batch))
      then delete_batches w batches
             (success, failed + length batch,
              print ErrorDeletingBatch (issue (DeleteMetafields (map pm_id batch)) s))
      else delete_batches w batches
             (success + length batch, failed,
              print (Deleted (length batch)) (issue (DeleteMetafields (map pm_id batch)) s)))"

definition deleteMetafields ::
  "world \<Rightarrow> ProductMetafield list \<Rightarrow> int \<Rightarrow> state \<Rightarrow> (nat \<times> nat \<times> state) option" where
  "deleteMetafields w metafields sz s =
     (case chunk metafields sz of
        None \<Rightarrow> None
      | Some batches \<Rightarrow> Some (delete_batches w batches (0, 0, s)))"

text \<open>\<^verbatim>\<open>!options.key && !options.namespace && !options.productId\<close>\<close>

definition criteria_missing :: "DeleteOptions \<Rightarrow> bool" where
  "criteria_missing options =
     (opt_key options = None \<and> opt_namespace options = None \<and> opt_productId options = None)"

text \<open>
  The top level of the file and \<^verbatim>\<open>main\<close>: the exit status, the counts of records deleted
  and failed, and what the run left behind; \<open>None\<close> is a run that never ends.
\<close>

definition delete_main ::
  "world \<Rightarrow> DeleteOptions \<Rightarrow> (nat \<times> (nat \<times> nat) \<times> state) option" where
  "delete_main w given =
     (let options = default_dryRun given
      in if credentials_missing options
         then Some (1, (0, 0), print CredentialsRequired initial)
         else if criteria_missing options
         then Some (1, (0, 0), print CriteriaRequired initial)
         else
           (let client = (truthy_string (accessToken options)
                          \<and> truthy_string (storeHash options));
                s = (if client then getStoreInfo initial else initial)
            in if \<not> client then Some (1, (0, 0), print CannotProceed s)
               else
                 (case fetchMetafields w options s of
                    (Exit status, s1) \<Rightarrow> Some (status, (0, 0), s1)
                  | (Value metafields, s1) \<Rightarrow>
                      if metafields = [] then Some (0, (0, 0), s1)
                      else if truthy_flag (dryRun options) then Some (0, (0, 0), s1)
                      else
                        (case deleteMetafields w metafields
                                (or_default (batchSize options) 50) s1 of
                           None \<Rightarrow> None
                         | Some (success, failed, s2) \<Rightarrow> Some (0, (success, failed), s2)))))"

section \<open>Inputs of the examples\<close>

definition exampleRow :: row where
  "exampleRow =
     [(''id'', ''123''), (''sku'', ''SKU0001''), (''namespace_1.key_1'', ''Value 11''),
      (''namespace_1.key_2'', ''Value 21''), (''namespace_2.key_1'', ''Value 31'')]"

text \<open>
  The options of the examples are ones \<^verbatim>\<open>program.opts()\<close> delivers: the dry-run flag,
  the skip count and the batch size have the defaults \<^verbatim>\<open>true\<close>, 0 and 50. The batch size
  in effect is 50 on every command line: the option parser hands \<^verbatim>\<open>parseInt\<close> the
  previous value, 50, as its radix, so a batch size that is given is \<^verbatim>\<open>NaN\<close>.
\<close>

definition liveOptions :: ProgramOptions where
  "liveOptions =
     \<lparr> accessToken = Some ''token'', storeHash = Some ''hash'', dryRun = Some False,
       skip = Some 0, limit = None, batchSize = Some 50 \<rparr>"

definition dryOptions :: ProgramOptions where
  "dryOptions =
     \<lparr> accessToken = None, storeHash = None, dryRun = Some True,
       skip = Some 0, limit = None, batchSize = Some 50 \<rparr>"

definition deleteAll :: DeleteOptions where
  "deleteAll =
     \<lparr> accessToken = Some ''token'', storeHash = Some ''hash'', dryRun = Some False,
       skip = None, limit = None, batchSize = Some 50,
       opt_key = None, opt_namespace = None, opt_productId = None, opt_all = Some True \<rparr>"

definition dryDelete :: DeleteOptions where
  "dryDelete =
     \<lparr> accessToken = Some ''token'', storeHash = Some ''hash'', dryRun = Some True,
       skip = None, limit = None, batchSize = Some 50,
       opt_key = Some [''key_1''], opt_namespace = None, opt_productId = None,
       opt_all = None \<rparr>"

definition twoColumns :: row where
  "twoColumns = [(''id'', ''5''), (''sku'', ''S''), (''a.x'', ''1''), (''a.y'', ''2'')]"

definition negativeId :: row where
  "negativeId = [(''id'', ''-5''), (''sku'', ''S''), (''a.x'', ''1'')]"

definition nonNumericId :: row where
  "nonNumericId = [(''id'', ''abc''), (''sku'', ''S''), (''a.x'', ''1'')]"

text \<open>A row of 51 metafield columns: one more than a batch of 50 holds.\<close>

definition wideRow :: row where
  "wideRow =
     [(''id'', ''5''), (''sku'', ''S''), (''a.k01'', ''v''), (''a.k02'', ''v''),
     (''a.k03'', ''v''), (''a.k04'', ''v''), (''a.k05'', ''v''), (''a.k06'', ''v''),
     (''a.k07'', ''v''), (''a.k08'', ''v''), (''a.k09'', ''v''), (''a.k10'', ''v''),
     (''a.k11'', ''v''), (''a.k12'', ''v''), (''a.k13'', ''v''), (''a.k14'', ''v''),
     (''a.k15'', ''v''), (''a.k16'', ''v''), (''a.k17'', ''v''), (''a.k18'', ''v''),
     (''a.k19'', ''v''), (''a.k20'', ''v''), (''a.k21'', ''v''), (''a.k22'', ''v''),
     (''a.k23'', ''v''), (''a.k24'', ''v''), (''a.k25'', ''v''), (''a.k26'', ''v''),
     (''a.k27'', ''v''), (''a.k28'', ''v''), (''a.k29'', ''v''), (''a.k30'', ''v''),
     (''a.k31'', ''v''), (''a.k32'', ''v''), (''a.k33'', ''v''), (''a.k34'', ''v''),
     (''a.k35'', ''v''), (''a.k36'', ''v''), (''a.k37'', ''v''), (''a.k38'', ''v''),
     (''a.k39'', ''v''), (''a.k40'', ''v''), (''a.k41'', ''v''), (''a.k42'', ''v''),
     (''a.k43'', ''v''), (''a.k44'', ''v''), (''a.k45'', ''v''), (''a.k46'', ''v''),
     (''a.k47'', ''v''), (''a.k48'', ''v''), (''a.k49'', ''v''), (''a.k50'', ''v''),
     (''a.k51'', ''v'')]"

definition remoteRecord :: item where
  "remoteRecord =
     [(''id'', JNumber 9), (''resource_id'', JNumber 5), (''key'', JString ''key_1''),
      (''namespace'', JString ''a''), (''value'', JString ''1'')]"


text \<open>
  A directory of two data files and one other file, every data file holding the two rows
  above, and a remote system that answers every call; and a directory of one data file
  that holds the wide row and then a row of two columns, with a remote system whose call
  number 1 throws (call number 0 of a run with credentials is the one of
  \<^verbatim>\<open>getStoreInfo\<close>, so this is the first create call).
\<close>

definition calmWorld :: world where
  "calmWorld =
     \<lparr> readdir = Some [''b.csv'', ''notes.txt'', ''a.csv''],
       parseCSVFile = (\<lambda>name. Some [twoColumns, nonNumericId]),
       throws = (\<lambda>n c. False),
       listing = (\<lambda>q. ([remoteRecord], True)) \<rparr>"

definition firstPostFails :: world where
  "firstPostFails =
     \<lparr> readdir = Some [''a.csv''],
       parseCSVFile = (\<lambda>name. Some [wideRow, twoColumns]),
       throws = (\<lambda>n c. n = 1),
       listing = (\<lambda>q. ([remoteRecord], True)) \<rparr>"

section \<open>Notions the properties are stated with\<close>



text \<open>
  The batches of a list, each with the number its call has in the run when the first of
  them is call number \<open>k\<close>.
\<close>

fun numbered :: "nat \<Rightarrow> 'a list \<Rightarrow> (nat \<times> 'a) list" where
  "numbered k [] = []"
| "numbered k (x # xs) = (k, x) # numbered (Suc k) xs"

text \<open>Whether the create call, or the delete call, of a numbered batch throws.\<close>

definition post_throws :: "world \<Rightarrow> nat \<times> metafield list \<Rightarrow> bool" where
  "post_throws w e = throws w (fst e) (PostMetafields (snd e))"


text \<open>
  Of the batches of a row, the leading ones whose create calls do not throw, and the
  first one whose call throws (a list of one batch, or of none).
\<close>

definition created :: "world \<Rightarrow> nat \<Rightarrow> metafield list list \<Rightarrow> metafield list list" where
  "created w k batches = map snd (takeWhile (\<lambda>e. \<not> post_throws w e) (numbered k batches))"

definition refused :: "world \<Rightarrow> nat \<Rightarrow> metafield list list \<Rightarrow> metafield list list" where
  "refused w k batches =
     map snd (take 1 (dropWhile (\<lambda>e. \<not> post_throws w e) (numbered k batches)))"

section \<open>Properties of transformToMetafields\<close>

lemma split_without_separator: "c \<notin> set s \<Longrightarrow> split c s = [s]"
proof -
  assume "c \<notin> set s"
  then have none: "dropWhile (\<lambda>x. x \<noteq> c) s = []"
    by auto
  show ?thesis
    by (subst split.simps) (simp only: none list.case)
qed

lemma toMetafield_dotless:
  "CHR ''.'' \<notin> set k \<Longrightarrow>
     namespace (toMetafield sku productId (k, v)) = k
     \<and> key (toMetafield sku productId (k, v)) = []
     \<and> val (toMetafield sku productId (k, v)) = v"
  by (simp add: toMetafield_def Let_def split_without_separator)

lemma lineTerminator_isWhiteSpace: "isLineTerminator c \<Longrightarrow> isWhiteSpace c"
  by (simp add: isWhiteSpace_def)

lemma dropWhile_same_length: "length (dropWhile P xs) = length xs \<Longrightarrow> dropWhile P xs = xs"
proof -
  assume "length (dropWhile P xs) = length xs"
  moreover have "length (takeWhile P xs) + length (dropWhile P xs) = length xs"
    by (metis length_append takeWhile_dropWhile_id)
  ultimately have "takeWhile P xs = []"
    by simp
  then show ?thesis
    by (metis append_Nil takeWhile_dropWhile_id)
qed

lemma trim_fixed_iff:
  "trim v = v \<longleftrightarrow> v = [] \<or> (\<not> isWhiteSpace (hd v) \<and> \<not> isWhiteSpace (last v))"
proof
  assume eq: "trim v = v"
  show "v = [] \<or> (\<not> isWhiteSpace (hd v) \<and> \<not> isWhiteSpace (last v))"
  proof (cases "v = []")
    case False
    let ?a = "dropWhile isWhiteSpace v"
    let ?b = "dropWhile isWhiteSpace (rev ?a)"
    have "length v = length ?b"
      using eq by (metis length_rev trim_def)
    moreover have "length ?b \<le> length ?a"
      by (metis length_dropWhile_le length_rev)
    moreover have "length ?a \<le> length v"
      by (rule length_dropWhile_le)
    ultimately have la: "length ?a = length v" and lb: "length ?b = length (rev ?a)"
      by simp_all
    have a: "?a = v"
      using la by (rule dropWhile_same_length)
    have "?b = rev ?a"
      using lb by (rule dropWhile_same_length)
    with a have b: "dropWhile isWhiteSpace (rev v) = rev v"
      by simp
    from a False have "\<not> isWhiteSpace (hd v)"
      by (simp add: dropWhile_eq_self_iff)
    moreover from b False have "\<not> isWhiteSpace (hd (rev v))"
      by (simp add: dropWhile_eq_self_iff)
    ultimately show ?thesis
      using False by (simp add: hd_rev)
  qed simp
next
  assume h: "v = [] \<or> (\<not> isWhiteSpace (hd v) \<and> \<not> isWhiteSpace (last v))"
  show "trim v = v"
  proof (cases "v = []")
    case True
    then show ?thesis by (simp add: trim_def)
  next
    case False
    with h have "dropWhile isWhiteSpace v = v" "dropWhile isWhiteSpace (rev v) = rev v"
      by (simp_all add: dropWhile_eq_self_iff hd_rev)
    then show ?thesis
      by (simp add: trim_def)
  qed
qed

lemma preformatted_iff:
  "preformatted v \<longleftrightarrow> trim v = v \<and> \<not> list_ex isLineTerminator v"
proof (cases v rule: preformatted.cases)
  case 1
  then show ?thesis by (simp add: trim_fixed_iff)
next
  case (2 c)
  then show ?thesis
    using lineTerminator_isWhiteSpace [of c] by (auto simp: trim_fixed_iff)
next
  case (3 c d ds)
  have "set (d # ds) = set (butlast (d # ds)) \<union> {last (d # ds)}"
    by (metis append_butlast_last_id list.distinct(1) list.set(1) list.simps(15) set_append Un_commute insert_is_Un)
  then have parts: "list_ex isLineTerminator (d # ds)
      \<longleftrightarrow> list_ex isLineTerminator (butlast (d # ds)) \<or> isLineTerminator (last (d # ds))"
    by (auto simp: list_ex_iff)
  have "preformatted (c # d # ds) \<longleftrightarrow>
      \<not> isWhiteSpace c \<and> \<not> list_ex isLineTerminator (butlast (d # ds))
      \<and> \<not> isWhiteSpace (last (d # ds))"
    by (simp add: list_all_iff list_ex_iff)
  also have "\<dots> \<longleftrightarrow> trim (c # d # ds) = c # d # ds \<and> \<not> list_ex isLineTerminator (c # d # ds)"
    using lineTerminator_isWhiteSpace [of c] lineTerminator_isWhiteSpace [of "last (d # ds)"] parts
    by (auto simp: trim_fixed_iff)
  finally show ?thesis
    using 3 by simp
qed

lemma value_allows_iff:
  "value_allows v \<longleftrightarrow> trim v \<noteq> [] \<and> trim v = v \<and> \<not> list_ex isLineTerminator v"
  by (auto simp: value_allows_def preformatted_iff)


lemmas transform_eval =
  transformToMetafields_def columnSchema_allows_def header_allows_def value_allows_def
  skipColumns_def isWhiteSpace_def isLineTerminator_def toMetafield_def toUpperCase_def
  Let_def split.simps

text \<open>
  C1, as the code has it. The filter of \<^verbatim>\<open>transformToMetafields\<close> looks at no dot: a
  column whose name contains no \<^verbatim>\<open>.\<close> and is neither \<^verbatim>\<open>id\<close> nor \<^verbatim>\<open>sku\<close> yields a record
  whenever its value passes the value schema (non-empty and trimmed already), and that
  record has the whole column name as its namespace and the empty string as its key.
\<close>

theorem transformToMetafields_dotless_column:
  assumes "(k, v) \<in> set row" and "CHR ''.'' \<notin> set k" and "k \<notin> set skipColumns"
    and "value_allows v"
  shows "\<exists>m \<in> set (transformToMetafields row productId).
           namespace m = k \<and> key m = [] \<and> val m = v"
proof -
  have "(k, v) \<in> set (filter columnSchema_allows row)"
    using assms by (simp add: columnSchema_allows_def header_allows_def)
  then have "toMetafield
      (case map_of row ''sku'' of
         None \<Rightarrow> ''product_'' @ numberToString productId
       | Some s \<Rightarrow> if s \<noteq> [] then s else ''product_'' @ numberToString productId)
      productId (k, v) \<in> set (transformToMetafields row productId)"
    by (simp add: transformToMetafields_def Let_def)
  then show ?thesis
    using toMetafield_dotless [OF assms(2)] by blast
qed

theorem transformToMetafields_dotless_column_witness:
  "list_ex (\<lambda>m. namespace m = ''color'' \<and> key m = [] \<and> val m = ''red'')
     (transformToMetafields [(''sku'', ''S1''), (''color'', ''red'')] 7)"
  using transformToMetafields_dotless_column
    [of "''color''" "''red''" "[(''sku'', ''S1''), (''color'', ''red'')]" 7]
  by (simp add: list_ex_iff skipColumns_def value_allows_def isWhiteSpace_def
      isLineTerminator_def)

text \<open>
  C1 as stated fails: the row with the single dotless column \<^verbatim>\<open>color\<close> yields a record.
\<close>

theorem transformToMetafields_dotless_counterexample:
  "CHR ''.'' \<notin> set ''color''
   \<and> map (\<lambda>m. (namespace m, key m, val m, description m))
       (transformToMetafields [(''color'', ''red'')] 7)
     = [(''color'', [], ''red'', '' for product_7'')]"
  by (simp add: transform_eval numberToString_def digits.simps)

text \<open>
  C3, as the code has it. The number of records is the number of columns, other than
  \<^verbatim>\<open>id\<close> and \<^verbatim>\<open>sku\<close>, whose value has a non-empty trimmed form and moreover is that
  trimmed form already and holds no line terminator. Nothing is trimmed by the function.
\<close>

theorem transformToMetafields_count:
  "length (transformToMetafields row productId) =
     length (filter (\<lambda>e. fst e \<notin> set skipColumns \<and> trim (snd e) \<noteq> []
                        \<and> trim (snd e) = snd e \<and> \<not> list_ex isLineTerminator (snd e)) row)"
proof -
  have "columnSchema_allows = (\<lambda>e. fst e \<notin> set skipColumns \<and> trim (snd e) \<noteq> []
      \<and> trim (snd e) = snd e \<and> \<not> list_ex isLineTerminator (snd e))"
    by (rule ext) (simp add: columnSchema_allows_def header_allows_def value_allows_iff)
  then show ?thesis
    by (simp add: transformToMetafields_def Let_def)
qed

theorem transformToMetafields_count_witness:
  "length (transformToMetafields exampleRow 123) = 3"
  using transformToMetafields_count [of exampleRow 123]
  by (simp add: exampleRow_def skipColumns_def trim_def isWhiteSpace_def isLineTerminator_def)

text \<open>
  C3 as stated fails: a value with a leading space has a non-empty trimmed form, and its
  column is dropped.
\<close>

theorem transformToMetafields_count_counterexample:
  "transformToMetafields [(''ns.k'', '' a'')] 1 = []
   \<and> length (filter (\<lambda>e. fst e \<notin> {''id'', ''sku''} \<and> trim (snd e) \<noteq> [])
        [(''ns.k'', '' a'')]) = 1"
  by (simp add: transform_eval trim_def)

text \<open>
  C10. The row of the example with product id 123 yields three records, and the first has
  namespace \<^verbatim>\<open>namespace_1\<close>, key \<^verbatim>\<open>key_1\<close>, value \<^verbatim>\<open>Value 11\<close> and description
  \<^verbatim>\<open>Key 1 for SKU0001\<close>.
\<close>

theorem transformToMetafields_example:
  "length (transformToMetafields exampleRow 123) = 3
   \<and> map (\<lambda>m. (namespace m, key m, val m, description m))
       (take 1 (transformToMetafields exampleRow 123))
     = [(''namespace_1'', ''key_1'', ''Value 11'', ''Key 1 for SKU0001'')]"
  by (simp add: transform_eval exampleRow_def)

section \<open>Properties of chunk\<close>

lemma slice_take_drop:
  "0 \<le> i \<Longrightarrow> 0 \<le> n \<Longrightarrow> slice xs i (Some (i + n)) = take (nat n) (drop (nat i) xs)"
  by (auto simp: slice_def Let_def min_def nat_add_distrib)

lemma chunk_loop_never_returns:
  assumes "chunk_loop array sz i chunks = Some y"
  shows "\<not> (sz \<le> 0 \<and> i < int (length array))"
  by (rule chunk_loop.raw_induct
        [where P = "\<lambda>array sz i chunks y. \<not> (sz \<le> 0 \<and> i < int (length array))", OF _ assms])
     (fastforce split: if_splits)

lemma chunk_loop_diverges:
  "sz \<le> 0 \<Longrightarrow> i < int (length array) \<Longrightarrow> chunk_loop array sz i chunks = None"
  using chunk_loop_never_returns [of array sz i chunks]
  by (cases "chunk_loop array sz i chunks") auto

lemma chunk_loop_returns:
  assumes "1 \<le> sz" and "0 \<le> i"
  shows "\<exists>cs. chunk_loop array sz i chunks = Some (chunks @ cs)
           \<and> concat cs = drop (nat i) array
           \<and> list_all (\<lambda>g. 1 \<le> length g \<and> int (length g) \<le> sz) cs
           \<and> list_all (\<lambda>g. int (length g) = sz) (butlast cs)"
  using assms
proof (induction "length array - nat i" arbitrary: i chunks rule: less_induct)
  case less
  show ?case
  proof (cases "i < int (length array)")
    case False
    then show ?thesis
      using less.prems by (subst chunk_loop.simps) simp
  next
    case True
    define g where "g = take (nat sz) (drop (nat i) array)"
    have sl: "slice array i (Some (i + sz)) = g"
      using less.prems by (simp add: slice_take_drop g_def)
    have glen: "length g = min (nat sz) (length array - nat i)"
      by (simp add: g_def)
    have "length array - nat (i + sz) < length array - nat i"
      using True less.prems by linarith
    moreover have "1 \<le> sz" "0 \<le> i + sz"
      using less.prems by simp_all
    ultimately obtain cs where cs:
      "chunk_loop array sz (i + sz) ((chunks @ [g])) = Some ((chunks @ [g]) @ cs)"
      "concat cs = drop (nat (i + sz)) array"
      "list_all (\<lambda>g. 1 \<le> length g \<and> int (length g) \<le> sz) cs"
      "list_all (\<lambda>g. int (length g) = sz) (butlast cs)"
      using less.hyps [of "i + sz" "chunks @ [g]"] by blast
    have run: "chunk_loop array sz i chunks = Some (chunks @ (g # cs))"
      using True cs(1) sl by (subst chunk_loop.simps) simp
    have "nat (i + sz) = nat sz + nat i"
      using less.prems by (simp add: nat_add_distrib)
    then have cat: "concat (g # cs) = drop (nat i) array"
      using cs(2) by (simp add: g_def) (metis append_take_drop_id drop_drop)
    have bounds: "1 \<le> length g \<and> int (length g) \<le> sz"
      using True less.prems glen by (simp add: min_def) linarith
    have full: "cs \<noteq> [] \<Longrightarrow> int (length g) = sz"
    proof -
      assume "cs \<noteq> []"
      with cs(3) have "concat cs \<noteq> []"
        by (cases cs) auto
      then have "nat (i + sz) < length array"
        using cs(2) by simp
      then show ?thesis
        using glen less.prems by (simp add: min_def) linarith
    qed
    show ?thesis
      using run cat bounds full cs(3,4) by (intro exI [of _ "g # cs"]) auto
  qed
qed

text \<open>
  C9. For every sequence and every size of at least 1, \<^verbatim>\<open>chunk\<close> returns; the groups it
  returns, concatenated in order, are the sequence; every group but the last has the
  length of the size, and the last one has a length from 1 to the size.
\<close>

theorem chunk_partition:
  assumes "1 \<le> sz"
  shows "\<exists>cs. chunk S sz = Some cs \<and> concat cs = S
           \<and> list_all (\<lambda>g. int (length g) = sz) (butlast cs)
           \<and> (cs = [] \<or> (1 \<le> length (last cs) \<and> int (length (last cs)) \<le> sz))"
proof -
  obtain cs where cs: "chunk_loop S sz 0 [] = Some ([] @ cs)" "concat cs = drop (nat 0) S"
    "list_all (\<lambda>g. 1 \<le> length g \<and> int (length g) \<le> sz) cs"
    "list_all (\<lambda>g. int (length g) = sz) (butlast cs)"
    using chunk_loop_returns [OF assms, of 0 S "[]"] by auto
  have "cs = [] \<or> (1 \<le> length (last cs) \<and> int (length (last cs)) \<le> sz)"
    using cs(3) by (cases "cs = []") (simp_all add: list_all_iff)
  then show ?thesis
    using cs by (simp add: chunk_def)
qed

theorem chunk_partition_witness:
  "chunk [1, 2, 3, 4, 5 :: nat] 2 = Some [[1, 2], [3, 4], [5]]
   \<and> (\<exists>cs. chunk [1, 2, 3, 4, 5 :: nat] 2 = Some cs \<and> concat cs = [1, 2, 3, 4, 5]
         \<and> list_all (\<lambda>g. int (length g) = 2) (butlast cs)
         \<and> (cs = [] \<or> (1 \<le> length (last cs) \<and> int (length (last cs)) \<le> 2)))"
  using chunk_partition [of 2 "[1, 2, 3, 4, 5 :: nat]"]
  by (simp add: chunk_def chunk_loop.simps slice_def)

text \<open>
  C2, as the code has it. \<^verbatim>\<open>chunk\<close> checks no size and raises nothing: with a size of 0
  or less it returns the empty array for the empty sequence, and for any other sequence
  its loop never ends.
\<close>

theorem chunk_nonpositive:
  "sz \<le> 0 \<Longrightarrow> chunk S sz = (if S = [] then Some [] else None)"
  by (auto simp: chunk_def chunk_loop_diverges) (simp add: chunk_loop.simps)

theorem chunk_nonpositive_witness:
  "chunk [1 :: nat, 2] (- 1) = None \<and> chunk ([] :: nat list) (- 1) = Some []"
  using chunk_nonpositive [of "- 1" "[1 :: nat, 2]"] chunk_nonpositive [of "- 1" "[] :: nat list"]
  by simp

text \<open>
  C2 as stated fails: with size 0 the empty sequence is answered without any error, and
  the run on a sequence of one element never ends.
\<close>

theorem chunk_zero_counterexample:
  "chunk ([] :: nat list) 0 = Some [] \<and> chunk [7 :: nat] 0 = None"
  by (simp add: chunk_def chunk_loop_diverges) (simp add: chunk_loop.simps)

section \<open>Properties of the two commands\<close>

lemma default_dryRun_fields:
  "truthy_flag (dryRun (default_dryRun options)) = (dryRun options \<noteq> Some False)"
  "accessToken (default_dryRun options) = accessToken options"
  "storeHash (default_dryRun options) = storeHash options"
  "skip (default_dryRun options) = skip options"
  "limit (default_dryRun options) = limit options"
  "batchSize (default_dryRun options) = batchSize options"
  by (auto simp: default_dryRun_def truthy_flag_def split: option.splits)

lemma criteria_missing_default [simp]:
  "criteria_missing (default_dryRun options) = criteria_missing options"
  by (simp add: criteria_missing_def default_dryRun_def)

lemma calls_simps [simp]:
  "calls (issue c s) = calls s @ [c]"
  "calls (print m s) = calls s"
  "calls initial = []"
  "calls (getStoreInfo s) = calls s @ [GetStore]"
  by (simp_all add: issue_def print_def initial_def getStoreInfo_def)

lemmas options_eval =
  liveOptions_def dryOptions_def deleteAll_def dryDelete_def truthy_flag_def
  truthy_string_def truthy_number_def or_default_def

lemmas parse_eval =
  parseInt_id_def parseInt_def isWhiteSpace_def isLineTerminator_def isDigit_def
  digitValue_def mathInt_def Let_def

lemmas run_eval =
  process_row_def post_batches.simps slice_def issue_def print_def zero_def initial_def
  getStoreInfo_def calmWorld_def firstPostFails_def


subsection \<open>The criteria of the delete command\<close>

text \<open>
  C4. When none of the key list, the namespace list and the product-id list is given,
  the delete command exits with status 1 and has issued no call at all, so no fetch.
  This holds whatever \<^verbatim>\<open>options.all\<close> is: the code never reads that option, although
  \<^verbatim>\<open>DeleteOptions\<close> declares it and the README documents \<^verbatim>\<open>--all\<close>.
\<close>

theorem delete_without_criteria:
  assumes "criteria_missing options"
  shows "\<exists>s. delete_main w options = Some (1, (0, 0), s) \<and> calls s = []"
  using assms by (simp add: delete_main_def Let_def)

theorem delete_without_criteria_witness:
  "criteria_missing deleteAll \<and> opt_all deleteAll = Some True
   \<and> (\<exists>s. delete_main calmWorld deleteAll = Some (1, (0, 0), s) \<and> calls s = [])"
  using delete_without_criteria [of deleteAll calmWorld]
  by (simp add: criteria_missing_def deleteAll_def)

subsection \<open>The files of the create command\<close>

lemma slice_to_end: "0 \<le> k \<Longrightarrow> slice xs k None = drop (nat k) xs"
  by (simp add: slice_def Let_def min_def)

text \<open>
  C5, as the code has it. With a skip count of at least 0 and a limit of at least 1, the
  files selected are the names ending in \<^verbatim>\<open>.csv\<close>, sorted, without the first skip of
  them, and of these at most the first limit; these are the files \<^verbatim>\<open>processAllFiles\<close>
  processes. A limit of 0 is falsy and is taken as no limit: all the files after the
  skipped ones are selected.
\<close>

theorem selectFiles_skip_limit:
  assumes "0 \<le> or_default (skip options) 0" and "limit options = Some l" and "0 \<le> l"
  shows "let csvFiles = sort (filter (endsWith ''.csv'') files);
             remainder = drop (nat (or_default (skip options) 0)) csvFiles;
             selected = (if l = 0 then remainder else take (nat l) remainder)
         in selectFiles options files = selected
            \<and> (readdir w = Some files \<longrightarrow>
                 processAllFiles w options client s
                   = process_files w options client selected (zero, s))"
proof -
  have "selectFiles options files =
      (if l = 0
       then drop (nat (or_default (skip options) 0)) (sort (filter (endsWith ''.csv'') files))
       else take (nat l) (drop (nat (or_default (skip options) 0))
              (sort (filter (endsWith ''.csv'') files))))"
    using assms
    by (simp add: selectFiles_def Let_def truthy_number_def slice_to_end slice_take_drop
        or_default_def)
  then show ?thesis
    by (simp add: Let_def processAllFiles_def)
qed

theorem selectFiles_skip_limit_witness:
  "selectFiles (liveOptions\<lparr>skip := Some 1, limit := Some 1\<rparr>)
     [''b.csv'', ''notes.txt'', ''a.csv''] = [''b.csv'']
   \<and> processAllFiles calmWorld (liveOptions\<lparr>skip := Some 1, limit := Some 1\<rparr>) True initial
     = process_files calmWorld (liveOptions\<lparr>skip := Some 1, limit := Some 1\<rparr>) True
         [''b.csv''] (zero, initial)"
  using selectFiles_skip_limit
    [of "liveOptions\<lparr>skip := Some 1, limit := Some 1\<rparr>" 1
        "[''b.csv'', ''notes.txt'', ''a.csv'']" calmWorld True initial]
  by (simp add: options_eval endsWith_def calmWorld_def)

text \<open>
  C5 as stated fails: with the limit 0 both data files are selected, not none, and the
  run counts the product of each of them.
\<close>

theorem selectFiles_limit_zero_counterexample:
  "selectFiles (dryOptions\<lparr>skip := Some 0, limit := Some 0\<rparr>)
     [''b.csv'', ''notes.txt'', ''a.csv''] = [''a.csv'', ''b.csv'']
   \<and> map_option (\<lambda>(status, c, s). (status, totalProducts c))
       (create_main calmWorld (dryOptions\<lparr>skip := Some 0, limit := Some 0\<rparr>))
     = Some (0, 2)"
  by (simp add: selectFiles_def options_eval endsWith_def slice_def create_main_def
      default_dryRun_def credentials_missing_def readCSVFiles_def processAllFiles_def
      parse_eval run_eval twoColumns_def nonNumericId_def)

subsection \<open>The batches of a row and of a deletion\<close>

lemma map_snd_numbered [simp]: "map snd (numbered k xs) = xs"
  by (induction xs arbitrary: k) simp_all

lemma created_Nil [simp]: "created w k [] = []" "refused w k [] = []"
  by (simp_all add: created_def refused_def)

lemma created_Cons:
  "created w k (g # bs) =
     (if throws w k (PostMetafields g) then [] else g # created w (Suc k) bs)"
  "refused w k (g # bs) =
     (if throws w k (PostMetafields g) then [g] else refused w (Suc k) bs)"
  by (simp_all add: created_def refused_def post_throws_def)


lemma post_batches_outcome:
  assumes "1 \<le> sz" and "0 \<le> i"
  shows "\<exists>bs c' s'. chunk_loop mfs sz i acc = Some (acc @ bs)
           \<and> post_batches w mfs sz pid i (c, s)
               = Some (if refused w (length (calls s)) bs = [] then Return () else Throw, c', s')
           \<and> calls s' = calls s
               @ map PostMetafields
                   (created w (length (calls s)) bs @ refused w (length (calls s)) bs)
           \<and> console s' = console s
               @ map (\<lambda>b. Created (length b) pid) (created w (length (calls s)) bs)
           \<and> successCount c' = successCount c
               + length (concat (created w (length (calls s)) bs))
           \<and> errorCount c' = errorCount c \<and> totalProducts c' = totalProducts c
           \<and> totalMetafields c' = totalMetafields c"
  using assms
proof (induction "length mfs - nat i" arbitrary: i acc c s rule: less_induct)
  case less
  show ?case
  proof (cases "i < int (length mfs)")
    case False
    have "chunk_loop mfs sz i acc = Some (acc @ [])"
      using False by (subst chunk_loop.simps) simp
    moreover have "post_batches w mfs sz pid i (c, s) = Some (Return (), c, s)"
      using False by (subst post_batches.simps) simp
    ultimately show ?thesis
      by (intro exI [of _ "[]"] exI [of _ c] exI [of _ s]) simp
  next
    case True
    define g where "g = slice mfs i (Some (i + sz))"
    define k where "k = length (calls s)"
    have dec: "length mfs - nat (i + sz) < length mfs - nat i"
      using True less.prems by linarith
    have pre: "1 \<le> sz" "0 \<le> i + sz"
      using less.prems by simp_all
    show ?thesis
    proof (cases "throws w k (PostMetafields g)")
      case True
      obtain bs where bs: "chunk_loop mfs sz (i + sz) (acc @ [g]) = Some ((acc @ [g]) @ bs)"
        using less.hyps [OF dec pre, of "acc @ [g]"] by blast
      have "chunk_loop mfs sz i acc = Some (acc @ g # bs)"
        using \<open>i < int (length mfs)\<close> bs by (subst chunk_loop.simps) (simp add: g_def)
      moreover have "post_batches w mfs sz pid i (c, s)
          = Some (Throw, c, issue (PostMetafields g) s)"
        using \<open>i < int (length mfs)\<close> True
        by (subst post_batches.simps) (simp add: g_def k_def)
      ultimately show ?thesis
        using True
        by (intro exI [of _ "g # bs"] exI [of _ c] exI [of _ "issue (PostMetafields g) s"])
          (simp add: created_Cons k_def issue_def)
    next
      case False
      define c1 where "c1 = c\<lparr>successCount := successCount c + length g\<rparr>"
      define s1 where "s1 = print (Created (length g) pid) (issue (PostMetafields g) s)"
      have k1: "length (calls s1) = Suc k"
        by (simp add: s1_def k_def issue_def print_def)
      obtain bs c' s' where ih:
        "chunk_loop mfs sz (i + sz) (acc @ [g]) = Some ((acc @ [g]) @ bs)"
        "post_batches w mfs sz pid (i + sz) (c1, s1)
           = Some (if refused w (Suc k) bs = [] then Return () else Throw, c', s')"
        "calls s' = calls s1 @ map PostMetafields (created w (Suc k) bs @ refused w (Suc k) bs)"
        "console s' = console s1 @ map (\<lambda>b. Created (length b) pid) (created w (Suc k) bs)"
        "successCount c' = successCount c1 + length (concat (created w (Suc k) bs))"
        "errorCount c' = errorCount c1" "totalProducts c' = totalProducts c1"
        "totalMetafields c' = totalMetafields c1"
        using less.hyps [OF dec pre, of "acc @ [g]" c1 s1] unfolding k1 by blast
      have "chunk_loop mfs sz i acc = Some (acc @ g # bs)"
        using \<open>i < int (length mfs)\<close> ih(1) by (subst chunk_loop.simps) (simp add: g_def)
      moreover have "post_batches w mfs sz pid i (c, s)
          = Some (if refused w k (g # bs) = [] then Return () else Throw, c', s')"
        using \<open>i < int (length mfs)\<close> False ih(2)
        by (subst post_batches.simps) (simp add: g_def c1_def s1_def k_def created_Cons)
      ultimately show ?thesis
        using False ih(3-8)
        by (intro exI [of _ "g # bs"] exI [of _ c'] exI [of _ s'])
          (simp add: created_Cons k_def [symmetric] c1_def s1_def issue_def print_def)
    qed
  qed
qed



lemma refused_length: "length (refused w k bs) \<le> 1"
  by (simp add: refused_def)



lemma process_row_live:
  assumes "1 \<le> or_default (batchSize options) 50"
    and "parseInt_id row = Some pid" and "pid \<noteq> 0"
    and "\<not> truthy_flag (dryRun options)" and "transformToMetafields row pid \<noteq> []"
  shows "\<exists>batches c' s'.
           chunk (transformToMetafields row pid) (or_default (batchSize options) 50) = Some batches
           \<and> concat batches = transformToMetafields row pid
           \<and> process_row w options True row (c, s) = Some (c', s')
           \<and> calls s' = calls s
               @ map PostMetafields
                   (created w (length (calls s)) batches @ refused w (length (calls s)) batches)
           \<and> console s' = console s
               @ map (\<lambda>b. Created (length b) pid) (created w (length (calls s)) batches)
               @ map (\<lambda>b. ErrorForProduct pid) (refused w (length (calls s)) batches)
           \<and> successCount c' = successCount c
               + length (concat (created w (length (calls s)) batches))
           \<and> errorCount c' = errorCount c + length (refused w (length (calls s)) batches)
           \<and> totalProducts c' = Suc (totalProducts c)
           \<and> totalMetafields c' = totalMetafields c + length (transformToMetafields row pid)"
proof -
  let ?mfs = "transformToMetafields row pid"
  let ?sz = "or_default (batchSize options) 50"
  let ?k = "length (calls s)"
  define c1 where "c1 = c\<lparr>totalProducts := totalProducts c + 1,
    totalMetafields := totalMetafields c + length ?mfs\<rparr>"
  obtain bs c2 s2 where p:
    "chunk_loop ?mfs ?sz 0 [] = Some ([] @ bs)"
    "post_batches w ?mfs ?sz pid 0 (c1, s)
       = Some (if refused w ?k bs = [] then Return () else Throw, c2, s2)"
    "calls s2 = calls s @ map PostMetafields (created w ?k bs @ refused w ?k bs)"
    "console s2 = console s @ map (\<lambda>b. Created (length b) pid) (created w ?k bs)"
    "successCount c2 = successCount c1 + length (concat (created w ?k bs))"
    "errorCount c2 = errorCount c1" "totalProducts c2 = totalProducts c1"
    "totalMetafields c2 = totalMetafields c1"
    using post_batches_outcome [OF assms(1) order_refl, of ?mfs "[]" w pid c1 s] by blast
  have ch: "chunk ?mfs ?sz = Some bs"
    using p(1) by (simp add: chunk_def)
  have cat: "concat bs = ?mfs"
    using chunk_loop_returns [OF assms(1) order_refl, of ?mfs "[]"] p(1) by auto
  show ?thesis
  proof (cases "refused w ?k bs = []")
    case True
    then have "process_row w options True row (c, s) = Some (c2, s2)"
      using assms p(2) by (simp add: process_row_def Let_def c1_def)
    then show ?thesis
      using ch cat p(3-8) True
      by (intro exI [of _ bs] exI [of _ c2] exI [of _ s2]) (simp add: c1_def)
  next
    case False
    then have one: "length (refused w ?k bs) = 1"
      using refused_length [of w ?k bs] by (cases "refused w ?k bs") auto
    have "process_row w options True row (c, s)
        = Some (c2\<lparr>errorCount := errorCount c2 + 1\<rparr>, print (ErrorForProduct pid) s2)"
      using False assms p(2) by (simp add: process_row_def Let_def c1_def)
    moreover have "map (\<lambda>b. ErrorForProduct pid) (refused w ?k bs) = [ErrorForProduct pid]"
      using one by (cases "refused w ?k bs") auto
    ultimately show ?thesis
      using ch cat p(3-8) one
      by (intro exI [of _ bs] exI [of _ "c2\<lparr>errorCount := errorCount c2 + 1\<rparr>"]
            exI [of _ "print (ErrorForProduct pid) s2"])
         (simp add: c1_def print_def)
  qed
qed




text \<open>
  C7, as the code has it, for batch sizes of at least 1. The delete command submits every
  batch whatever fails, and every record is counted as deleted or as failed. The create
  command catches a failing call once per row: the batches of a row are submitted in
  order up to the first that throws, which counts one error and prints it, and the
  batches of that row after it are not submitted. No failing call ends the run: when all
  files can be read every file is processed to the end and every row with a product id
  is counted.
\<close>

subsection \<open>Rows without a product id\<close>

text \<open>
  C6, as the code has it. A row whose \<^verbatim>\<open>id\<close> is parsed by \<^verbatim>\<open>parseInt\<close> to \<^verbatim>\<open>NaN\<close> (no
  \<^verbatim>\<open>id\<close> column, or text that does not start with a number) or to 0 is skipped: the
  counters, the calls and the console are what they were, no error is counted, and the
  rows after it are processed as if it were not there. A row whose \<^verbatim>\<open>id\<close> is parsed to any
  other integer, negative or not, is processed: it is counted as a product and its records
  are counted; a dry run reports them, a run without client or without records does
  nothing more, and a live run submits at least the first batch of them.
\<close>

theorem row_product_id:
  "(parseInt_id row = None \<or> parseInt_id row = Some 0 \<longrightarrow>
      process_row w options client row cs = Some cs
      \<and> process_rows w options client (row # data) cs
          = process_rows w options client data cs)
   \<and> (parseInt_id row = Some pid \<and> pid \<noteq> 0 \<longrightarrow>
      (truthy_flag (dryRun options) \<longrightarrow>
         process_row w options client row (c, s)
           = Some (c\<lparr>totalProducts := totalProducts c + 1,
                      totalMetafields := totalMetafields c
                        + length (transformToMetafields row pid)\<rparr>,
                   print (WouldCreate (length (transformToMetafields row pid)) pid) s))
      \<and> (\<not> truthy_flag (dryRun options)
           \<and> (\<not> client \<or> transformToMetafields row pid = []) \<longrightarrow>
         process_row w options client row (c, s)
           = Some (c\<lparr>totalProducts := totalProducts c + 1,
                      totalMetafields := totalMetafields c
                        + length (transformToMetafields row pid)\<rparr>, s))
      \<and> (\<not> truthy_flag (dryRun options) \<and> client
           \<and> transformToMetafields row pid \<noteq> []
           \<and> 1 \<le> or_default (batchSize options) 50 \<longrightarrow>
         (\<exists>first others more c' s'.
            chunk (transformToMetafields row pid) (or_default (batchSize options) 50)
              = Some (first # others)
            \<and> process_row w options client row (c, s) = Some (c', s')
            \<and> totalProducts c' = Suc (totalProducts c)
            \<and> totalMetafields c' = totalMetafields c + length (transformToMetafields row pid)
            \<and> calls s' = calls s @ PostMetafields first # more)))"
proof (intro conjI impI)
  assume "parseInt_id row = None \<or> parseInt_id row = Some 0"
  then show "process_row w options client row cs = Some cs"
    by (auto simp: process_row_def)
  then show "process_rows w options client (row # data) cs
      = process_rows w options client data cs"
    by simp
next
  assume "parseInt_id row = Some pid \<and> pid \<noteq> 0" and "truthy_flag (dryRun options)"
  then show "process_row w options client row (c, s)
      = Some (c\<lparr>totalProducts := totalProducts c + 1,
                 totalMetafields := totalMetafields c + length (transformToMetafields row pid)\<rparr>,
              print (WouldCreate (length (transformToMetafields row pid)) pid) s)"
    by (simp add: process_row_def Let_def)
next
  assume "parseInt_id row = Some pid \<and> pid \<noteq> 0"
    and "\<not> truthy_flag (dryRun options) \<and> (\<not> client \<or> transformToMetafields row pid = [])"
  then show "process_row w options client row (c, s)
      = Some (c\<lparr>totalProducts := totalProducts c + 1,
                 totalMetafields := totalMetafields c + length (transformToMetafields row pid)\<rparr>,
              s)"
    by (auto simp: process_row_def Let_def)
next
  assume id: "parseInt_id row = Some pid \<and> pid \<noteq> 0"
    and live: "\<not> truthy_flag (dryRun options) \<and> client
      \<and> transformToMetafields row pid \<noteq> []
      \<and> 1 \<le> or_default (batchSize options) 50"
  let ?k = "length (calls s)"
  obtain batches c' s' where r:
    "chunk (transformToMetafields row pid) (or_default (batchSize options) 50) = Some batches"
    "concat batches = transformToMetafields row pid"
    "process_row w options True row (c, s) = Some (c', s')"
    "calls s' = calls s @ map PostMetafields (created w ?k batches @ refused w ?k batches)"
    "totalProducts c' = Suc (totalProducts c)"
    "totalMetafields c' = totalMetafields c + length (transformToMetafields row pid)"
    using process_row_live [of options row pid w c s] id live by blast
  from r(2) live obtain first others where b: "batches = first # others"
    by (cases batches) auto
  obtain more where "created w ?k batches @ refused w ?k batches = first # more"
    unfolding b by (cases "throws w ?k (PostMetafields first)") (simp_all add: created_Cons)
  with r(4) have "calls s' = calls s @ PostMetafields first # map PostMetafields more"
    by simp
  with r(1,3,5,6) b live show "\<exists>first others more c' s'.
      chunk (transformToMetafields row pid) (or_default (batchSize options) 50)
        = Some (first # others)
      \<and> process_row w options client row (c, s) = Some (c', s')
      \<and> totalProducts c' = Suc (totalProducts c)
      \<and> totalMetafields c' = totalMetafields c + length (transformToMetafields row pid)
      \<and> calls s' = calls s @ PostMetafields first # more"
    by auto
qed

theorem row_product_id_witness:
  "parseInt_id nonNumericId = None
   \<and> process_row calmWorld liveOptions True nonNumericId (zero, initial) = Some (zero, initial)
   \<and> process_rows calmWorld liveOptions True (nonNumericId # [twoColumns]) (zero, initial)
     = process_rows calmWorld liveOptions True [twoColumns] (zero, initial)
   \<and> parseInt_id negativeId = Some (- 5)
   \<and> process_row calmWorld dryOptions False negativeId (zero, initial)
     = Some (zero\<lparr>totalProducts := totalProducts zero + 1,
                    totalMetafields := totalMetafields zero
                      + length (transformToMetafields negativeId (- 5))\<rparr>,
             print (WouldCreate (length (transformToMetafields negativeId (- 5))) (- 5)) initial)
   \<and> process_row calmWorld liveOptions False negativeId (zero, initial)
     = Some (zero\<lparr>totalProducts := totalProducts zero + 1,
                    totalMetafields := totalMetafields zero
                      + length (transformToMetafields negativeId (- 5))\<rparr>, initial)
   \<and> (\<exists>first others more c' s'.
        chunk (transformToMetafields negativeId (- 5)) (or_default (batchSize liveOptions) 50)
          = Some (first # others)
        \<and> process_row calmWorld liveOptions True negativeId (zero, initial) = Some (c', s')
        \<and> totalProducts c' = Suc (totalProducts zero)
        \<and> totalMetafields c' = totalMetafields zero
            + length (transformToMetafields negativeId (- 5))
        \<and> calls s' = calls initial @ PostMetafields first # more)"
proof -
  have skipped: "parseInt_id nonNumericId = None"
    by (simp add: parse_eval nonNumericId_def)
  have negative: "parseInt_id negativeId = Some (- 5) \<and> (- 5 :: int) \<noteq> 0"
    by (simp add: parse_eval negativeId_def)
  have flags: "truthy_flag (dryRun dryOptions)" "\<not> truthy_flag (dryRun liveOptions)"
    "1 \<le> or_default (batchSize liveOptions) 50"
    by (simp_all add: options_eval)
  have records: "transformToMetafields negativeId (- 5) \<noteq> []"
    by (simp add: transform_eval negativeId_def)
  note skip_row = row_product_id [where row = nonNumericId and w = calmWorld
      and options = liveOptions and client = True and cs = "(zero, initial)"
      and data = "[twoColumns]"]
  have a: "process_row calmWorld liveOptions True nonNumericId (zero, initial)
        = Some (zero, initial)
      \<and> process_rows calmWorld liveOptions True (nonNumericId # [twoColumns]) (zero, initial)
        = process_rows calmWorld liveOptions True [twoColumns] (zero, initial)"
    using skipped skip_row [THEN conjunct1] by blast
  note dry_row = row_product_id [where row = negativeId and pid = "- 5" and w = calmWorld
      and options = dryOptions and client = False and c = zero and s = initial,
      THEN conjunct2, rule_format, OF negative, THEN conjunct1, rule_format, OF flags(1)]
  note idle_row = row_product_id [where row = negativeId and pid = "- 5" and w = calmWorld
      and options = liveOptions and client = False and c = zero and s = initial,
      THEN conjunct2, rule_format, OF negative, THEN conjunct2, THEN conjunct1, rule_format]
  have c: "process_row calmWorld liveOptions False negativeId (zero, initial)
      = Some (zero\<lparr>totalProducts := totalProducts zero + 1,
                     totalMetafields := totalMetafields zero
                       + length (transformToMetafields negativeId (- 5))\<rparr>, initial)"
    using flags(2) by (intro idle_row) simp
  note live_row = row_product_id [where row = negativeId and pid = "- 5" and w = calmWorld
      and options = liveOptions and client = True and c = zero and s = initial,
      THEN conjunct2, rule_format, OF negative, THEN conjunct2, THEN conjunct2, rule_format]
  have d: "\<exists>first others more c' s'.
        chunk (transformToMetafields negativeId (- 5)) (or_default (batchSize liveOptions) 50)
          = Some (first # others)
        \<and> process_row calmWorld liveOptions True negativeId (zero, initial) = Some (c', s')
        \<and> totalProducts c' = Suc (totalProducts zero)
        \<and> totalMetafields c' = totalMetafields zero
            + length (transformToMetafields negativeId (- 5))
        \<and> calls s' = calls initial @ PostMetafields first # more"
    using flags(2,3) records by (intro live_row) simp
  show ?thesis
    using skipped negative a dry_row c d by (intro conjI) simp_all
qed

text \<open>
  C6 as stated fails: the id \<^verbatim>\<open>-5\<close> is no positive integer, and its row is processed: it
  is counted as a product and its record is submitted for the product \<open>-5\<close>.
\<close>

theorem negative_id_counterexample:
  "parseInt ''-5'' = Some (- 5)
   \<and> map_option (\<lambda>(c, s). (totalProducts c, totalMetafields c, successCount c, errorCount c,
          map (\<lambda>a. case a of PostMetafields body \<Rightarrow> map resource_id body | _ \<Rightarrow> []) (calls s)))
       (process_row calmWorld liveOptions True negativeId (zero, initial))
     = Some (1, 1, 1, 0, [[- 5]])"
  by (simp add: parse_eval run_eval options_eval transform_eval negativeId_def)

subsection \<open>Dry runs\<close>

lemma process_row_dry:
  "truthy_flag (dryRun options) \<Longrightarrow>
     \<exists>c' s'. process_row w options client row (c, s) = Some (c', s') \<and> calls s' = calls s"
  by (auto simp: process_row_def Let_def split: option.splits)

lemma process_rows_dry:
  "truthy_flag (dryRun options) \<Longrightarrow>
     \<exists>c' s'. process_rows w options client data (c, s) = Some (c', s') \<and> calls s' = calls s"
proof (induction data arbitrary: c s)
  case Nil
  then show ?case by simp
next
  case (Cons row data)
  obtain c1 s1 where r: "process_row w options client row (c, s) = Some (c1, s1)"
    "calls s1 = calls s"
    using process_row_dry [OF Cons.prems] by blast
  with Cons.IH [OF Cons.prems, of c1 s1] show ?case
    by auto
qed

lemma process_files_dry:
  "truthy_flag (dryRun options) \<Longrightarrow>
     \<exists>r c' s'. process_files w options client files (c, s) = Some (r, c', s')
        \<and> calls s' = calls s"
proof (induction files arbitrary: c s)
  case Nil
  then show ?case by simp
next
  case (Cons name names)
  show ?case
  proof (cases "parseCSVFile w name")
    case None
    then show ?thesis by simp
  next
    case (Some data)
    obtain c1 s1 where r: "process_rows w options client data (c, s) = Some (c1, s1)"
      "calls s1 = calls s"
      using process_rows_dry [OF Cons.prems] by blast
    with Some Cons.IH [OF Cons.prems, of c1 s1] show ?thesis
      by auto
  qed
qed

lemma processAllFiles_dry:
  "truthy_flag (dryRun options) \<Longrightarrow>
     \<exists>r c' s'. processAllFiles w options client s = Some (r, c', s') \<and> calls s' = calls s"
  using process_files_dry [of options w client _ zero s]
  by (auto simp: processAllFiles_def split: option.splits)

lemma create_main_dry:
  assumes "dryRun options \<noteq> Some False"
  shows "\<exists>status c s. create_main w options = Some (status, c, s)
           \<and> list_all (\<lambda>a. \<not> mutating a) (calls s)"
proof -
  let ?o = "default_dryRun options"
  have dry: "truthy_flag (dryRun ?o)"
    using assms by (simp add: default_dryRun_fields)
  then have ok: "\<not> credentials_missing ?o"
    by (simp add: credentials_missing_def)
  define client where "client = (truthy_string (accessToken ?o) \<and> truthy_string (storeHash ?o))"
  define s0 where "s0 = (if client then getStoreInfo initial else initial)"
  have s0: "list_all (\<lambda>a. \<not> mutating a) (calls s0)"
    by (simp add: s0_def)
  obtain r c' s' where run: "processAllFiles w ?o client s0 = Some (r, c', s')"
    "calls s' = calls s0"
    using processAllFiles_dry [OF dry] by blast
  show ?thesis
  proof (cases "readCSVFiles w ?o")
    case Throw
    then show ?thesis
      using ok s0 by (auto simp: create_main_def Let_def client_def s0_def)
  next
    case (Return sampleData)
    then show ?thesis
      using ok s0 run by (cases r) (auto simp: create_main_def Let_def client_def s0_def)
  qed
qed

lemma fetchMetafields_calls:
  "calls (snd (fetchMetafields w options s)) = calls s @ [ListMetafields (make_query options)]"
  by (simp add: fetchMetafields_def Let_def)

lemma delete_main_dry:
  assumes "dryRun options \<noteq> Some False"
  shows "\<exists>status r s. delete_main w options = Some (status, r, s)
           \<and> list_all (\<lambda>a. \<not> mutating a) (calls s)"
proof -
  let ?o = "default_dryRun options"
  have dry: "truthy_flag (dryRun ?o)"
    using assms by (simp add: default_dryRun_fields)
  then have ok: "\<not> credentials_missing ?o"
    by (simp add: credentials_missing_def)
  obtain f s1 where f: "fetchMetafields w ?o (getStoreInfo initial) = (f, s1)"
    by (cases "fetchMetafields w ?o (getStoreInfo initial)")
  then have "calls s1 = [GetStore, ListMetafields (make_query ?o)]"
    using fetchMetafields_calls [of w ?o "getStoreInfo initial"] by simp
  then show ?thesis
    using ok dry f by (cases f) (auto simp: delete_main_def Let_def)
qed

text \<open>
  C8. With the dry-run flag set (\<^verbatim>\<open>true\<close>, or left to its default), the run of the create
  command and the run of the delete command end, and none of the calls they have issued
  is a create or a delete call. The calls of a run only grow, so no state of the run
  before its end holds such a call either.
\<close>

theorem dry_run_never_mutates:
  assumes "dryRun options \<noteq> Some False" and "dryRun doptions \<noteq> Some False"
  shows "(\<exists>status c s. create_main w options = Some (status, c, s)
            \<and> list_all (\<lambda>a. \<not> mutating a) (calls s))
       \<and> (\<exists>status r s. delete_main w doptions = Some (status, r, s)
            \<and> list_all (\<lambda>a. \<not> mutating a) (calls s))"
  using create_main_dry [OF assms(1)] delete_main_dry [OF assms(2)] by blast

theorem dry_run_never_mutates_witness:
  "dryRun dryOptions \<noteq> Some False \<and> dryRun dryDelete \<noteq> Some False
   \<and> (\<exists>status c s. create_main calmWorld dryOptions = Some (status, c, s)
         \<and> list_all (\<lambda>a. \<not> mutating a) (calls s))
   \<and> (\<exists>status r s. delete_main calmWorld dryDelete = Some (status, r, s)
         \<and> list_all (\<lambda>a. \<not> mutating a) (calls s))"
  using dry_run_never_mutates [of dryOptions dryDelete calmWorld]
  by (simp add: dryOptions_def dryDelete_def)

subsection \<open>Failing submissions\<close>




end
